theory Spec2Isabelle
  imports Main
begin

section \<open>Data model of \<^verbatim>\<open>django_browserid/views.py\<close>\<close>

text \<open>
  The views read three things of an inbound request: its HTTP method, its POST
  parameters (\<^verbatim>\<open>request.POST.get(name)\<close> is \<^verbatim>\<open>None\<close> for a missing name) and its host
  (\<^verbatim>\<open>request.get_host()\<close>).
\<close>

record request =
  "method" :: string
  POST :: "string \<rightharpoonup> string"
  host :: string

text \<open>
  The principal returned by the authentication backend. The views read
  \<^verbatim>\<open>user.email\<close> and \<^verbatim>\<open>user.is_active\<close> only.
\<close>

record user =
  email :: string
  is_active :: bool

text \<open>
  What \<^verbatim>\<open>auth.authenticate\<close> may raise and \<^verbatim>\<open>except Exception as e\<close> catches: the
  verification error of the package, or any other exception. Instances of both are
  truthy in Python (neither class defines \<^verbatim>\<open>__bool__\<close> or \<^verbatim>\<open>__len__\<close>).
\<close>

datatype exn = BrowserIDException string | Exception string

text \<open>
  The effects of a view are calls to its collaborators: the authentication backend,
  the session primitives \<^verbatim>\<open>auth.login\<close> and \<^verbatim>\<open>auth.logout\<close>, and \<^verbatim>\<open>logger.error\<close>.
  The state threaded through a view is the principal of the current session and the
  calls made so far, oldest first.
\<close>

datatype call =
    Call_authenticate string
  | Call_login user
  | Call_logout
  | Call_logger_error exn

record world =
  session :: "user option"
  calls :: "call list"

text \<open>
  A response body is a JSON object with string values (a Python dict) or plain text.
\<close>

datatype body = JSON "string \<rightharpoonup> string" | Text string

record response =
  status_code :: nat
  content :: body
  headers :: "string \<rightharpoonup> string"

type_synonym settings = "string \<rightharpoonup> string"

type_synonym handler = "request \<Rightarrow> world \<Rightarrow> response \<times> world"

text \<open>
  The value found under \<^verbatim>\<open>csrf_token\<close> in the request context: a string, or a lazy
  value whose evaluation may have side effects.
\<close>

datatype csrf_value = Plain string | Lazy "world \<Rightarrow> string \<times> world"

section \<open>Collaborators\<close>

text \<open>
  Modelled from the spec: \<^verbatim>\<open>JSONResponse\<close> (\<^verbatim>\<open>django_browserid/http.py\<close>) is not among the
  sources. It is a response whose body is the given mapping as JSON and whose
  status is the \<^verbatim>\<open>status\<close> keyword, 200 when the keyword is absent (the tests of the
  success path assert 200). The \<open>headers\<close> field holds the headers that the views
  themselves write (\<^verbatim>\<open>Allow\<close>, \<^verbatim>\<open>Cache-Control\<close>).
\<close>

definition JSONResponse :: "(string \<rightharpoonup> string) \<Rightarrow> nat option \<Rightarrow> response" where
  "JSONResponse d status =
     \<lparr>status_code = (case status of None \<Rightarrow> 200 | Some c \<Rightarrow> c),
      content = JSON d, headers = Map.empty\<rparr>"

text \<open>\<^verbatim>\<open>HttpResponse(text)\<close> of the framework: status 200, the text as body.\<close>

definition HttpResponse :: "string \<Rightarrow> response" where
  "HttpResponse t = \<lparr>status_code = 200, content = Text t, headers = Map.empty\<rparr>"

text \<open>
  The decorator \<^verbatim>\<open>never_cache\<close> of the framework, as far as the tests pin it down
  (\<^verbatim>\<open>test_never_cache\<close>): the response of the decorated view carries
  \<^verbatim>\<open>Cache-Control: max-age=0\<close>.
\<close>

definition never_cache :: "response \<Rightarrow> response" where
  "never_cache r = r\<lparr>headers := (headers r)(''Cache-Control'' \<mapsto> ''max-age=0'')\<rparr>"

text \<open>\<^verbatim>\<open>auth.authenticate\<close>: the call is recorded, the backend decides the outcome.\<close>

definition auth_authenticate ::
  "(request \<Rightarrow> string \<Rightarrow> exn + user option) \<Rightarrow> request \<Rightarrow> string \<Rightarrow> world
     \<Rightarrow> (exn + user option) \<times> world" where
  "auth_authenticate backend request assertion w =
     (backend request assertion, w\<lparr>calls := calls w @ [Call_authenticate assertion]\<rparr>)"

definition auth_login :: "user \<Rightarrow> world \<Rightarrow> world" where
  "auth_login u w = w\<lparr>session := Some u, calls := calls w @ [Call_login u]\<rparr>"

definition auth_logout :: "world \<Rightarrow> world" where
  "auth_logout w = w\<lparr>session := None, calls := calls w @ [Call_logout]\<rparr>"

definition logger_error :: "exn \<Rightarrow> world \<Rightarrow> world" where
  "logger_error e w = w\<lparr>calls := calls w @ [Call_logger_error e]\<rparr>"

text \<open>\<^verbatim>\<open>getattr(settings, name, '/')\<close>.\<close>

definition getattr_settings :: "settings \<Rightarrow> string \<Rightarrow> string" where
  "getattr_settings s name = (case s name of None \<Rightarrow> ''/'' | Some v \<Rightarrow> v)"

text \<open>
  Python's \<^verbatim>\<open>x or y\<close> for an optional string \<open>x\<close>: \<^verbatim>\<open>None\<close> and the empty string are
  falsy.
\<close>

definition py_or :: "string option \<Rightarrow> string \<Rightarrow> string" where
  "py_or x y = (case x of None \<Rightarrow> y | Some v \<Rightarrow> if v = [] then y else v)"

text \<open>\<^verbatim>\<open>six.text_type(v)\<close>: a lazy value is evaluated, with its side effects.\<close>

fun text_type :: "csrf_value \<Rightarrow> world \<Rightarrow> string \<times> world" where
  "text_type (Plain t) w = (t, w)"
| "text_type (Lazy f) w = f w"

text \<open>\<^verbatim>\<open>str.upper\<close> and \<^verbatim>\<open>str.lower\<close> on the ASCII letters of an HTTP method name.\<close>

definition upper_char :: "char \<Rightarrow> char" where
  "upper_char c =
     (let n = (of_char c :: nat) in if 97 \<le> n \<and> n \<le> 122 then char_of (n - 32) else c)"

definition lower_char :: "char \<Rightarrow> char" where
  "lower_char c =
     (let n = (of_char c :: nat) in if 65 \<le> n \<and> n \<le> 90 then char_of (n + 32) else c)"

definition upper :: "string \<Rightarrow> string" where
  "upper m = map upper_char m"

definition lower :: "string \<Rightarrow> string" where
  "lower m = map lower_char m"

text \<open>\<^verbatim>\<open>sep.join(xs)\<close>.\<close>

fun join :: "string \<Rightarrow> string list \<Rightarrow> string" where
  "join sep [] = []"
| "join sep [x] = x"
| "join sep (x # y # ys) = x @ sep @ join sep (y # ys)"

section \<open>The views\<close>

subsection \<open>\<^verbatim>\<open>JSONView.http_method_not_allowed\<close>\<close>

text \<open>
  \<open>names\<close> is \<^verbatim>\<open>self.http_method_names\<close>; \<open>attrs\<close> looks a method name up on the view
  instance, so \<^verbatim>\<open>hasattr(self, m)\<close> is \<open>attrs m \<noteq> None\<close>.
\<close>

definition http_method_not_allowed :: "string list \<Rightarrow> (string \<rightharpoonup> handler) \<Rightarrow> response" where
  "http_method_not_allowed names attrs =
     (let response = JSONResponse [''error'' \<mapsto> ''Method not allowed.''] (Some 405);
          allowed_methods = map upper (filter (\<lambda>m. attrs m \<noteq> None) names)
      in response\<lparr>headers := (headers response)(''Allow'' \<mapsto> join '', '' allowed_methods)\<rparr>)"

text \<open>
  The dispatcher that \<^verbatim>\<open>JSONView\<close> inherits from the framework's generic \<^verbatim>\<open>View\<close>: the
  lower-cased request method is looked up among \<^verbatim>\<open>http_method_names\<close> and then on
  the instance, and \<^verbatim>\<open>http_method_not_allowed\<close> answers when either lookup fails.
\<close>

definition dispatch :: "string list \<Rightarrow> (string \<rightharpoonup> handler) \<Rightarrow> handler" where
  "dispatch names attrs request w =
     (if lower (method request) \<in> set names
      then (case attrs (lower (method request)) of
              Some h \<Rightarrow> h request w
            | None \<Rightarrow> (http_method_not_allowed names attrs, w))
      else (http_method_not_allowed names attrs, w))"

subsection \<open>\<^verbatim>\<open>_get_next\<close>\<close>

text \<open>
  \<open>is_safe_url\<close> is the URL-safety validator of the framework, called as
  \<^verbatim>\<open>is_safe_url(next, host=request.get_host())\<close>.
\<close>

definition get_next :: "(string option \<Rightarrow> string \<Rightarrow> bool) \<Rightarrow> request \<Rightarrow> string option" where
  "get_next is_safe_url request =
     (let nxt = POST request ''next''
      in if is_safe_url nxt (host request) then nxt else None)"

subsection \<open>\<^verbatim>\<open>Verify\<close>\<close>

definition failure_url :: "settings \<Rightarrow> string" where
  "failure_url s = getattr_settings s ''LOGIN_REDIRECT_URL_FAILURE''"

definition success_url :: "settings \<Rightarrow> string" where
  "success_url s = getattr_settings s ''LOGIN_REDIRECT_URL''"

text \<open>
  \<^verbatim>\<open>login_success\<close> reads \<^verbatim>\<open>self.request\<close> and \<^verbatim>\<open>self.user\<close>; \<^verbatim>\<open>post\<close> calls it only after it
  has stored a truthy principal in \<^verbatim>\<open>self.user\<close>, which is the argument \<open>u\<close> here.
\<close>

definition login_success ::
  "settings \<Rightarrow> (string option \<Rightarrow> string \<Rightarrow> bool) \<Rightarrow> request \<Rightarrow> user \<Rightarrow> world
     \<Rightarrow> response \<times> world" where
  "login_success s is_safe_url request u w =
     (let w' = auth_login u w
      in (JSONResponse
            [''email'' \<mapsto> email u,
             ''redirect'' \<mapsto> py_or (get_next is_safe_url request) (success_url s)]
            None,
          w'))"

definition login_failure :: "settings \<Rightarrow> exn option \<Rightarrow> world \<Rightarrow> response \<times> world" where
  "login_failure s error w =
     (let w' = (case error of None \<Rightarrow> w | Some e \<Rightarrow> logger_error e w)
      in (JSONResponse [''redirect'' \<mapsto> failure_url s] (Some 403), w'))"

definition Verify_post ::
  "(request \<Rightarrow> string \<Rightarrow> exn + user option) \<Rightarrow> settings
     \<Rightarrow> (string option \<Rightarrow> string \<Rightarrow> bool) \<Rightarrow> handler" where
  "Verify_post backend s is_safe_url request w =
     (case POST request ''assertion'' of
        None \<Rightarrow> login_failure s None w
      | Some assertion \<Rightarrow>
          if assertion = [] then login_failure s None w
          else (case auth_authenticate backend request assertion w of
                  (Inl e, w1) \<Rightarrow> login_failure s (Some e) w1
                | (Inr None, w1) \<Rightarrow> login_failure s None w1
                | (Inr (Some u), w1) \<Rightarrow>
                    if is_active u then login_success s is_safe_url request u w1
                    else login_failure s None w1))"

subsection \<open>\<^verbatim>\<open>CsrfToken\<close>\<close>

text \<open>
  \<open>context\<close> is \<^verbatim>\<open>RequestContext(request)\<close>, read with
  \<^verbatim>\<open>context.get('csrf_token', '')\<close>.
\<close>

definition CsrfToken_get :: "(request \<Rightarrow> string \<rightharpoonup> csrf_value) \<Rightarrow> handler" where
  "CsrfToken_get context request w =
     (let v = (case context request ''csrf_token'' of None \<Rightarrow> Plain [] | Some t \<Rightarrow> t);
          (csrf_token, w') = text_type v w
      in (never_cache (HttpResponse csrf_token), w'))"

subsection \<open>\<^verbatim>\<open>Logout\<close>\<close>

definition redirect_url :: "settings \<Rightarrow> string" where
  "redirect_url s = getattr_settings s ''LOGOUT_REDIRECT_URL''"

definition Logout_post :: "settings \<Rightarrow> (string option \<Rightarrow> string \<Rightarrow> bool) \<Rightarrow> handler" where
  "Logout_post s is_safe_url request w =
     (let w' = auth_logout w
      in (JSONResponse
            [''redirect'' \<mapsto> py_or (get_next is_safe_url request) (redirect_url s)] None,
          w'))"

section \<open>Vocabulary of the properties\<close>

text \<open>
  Python's \<^verbatim>\<open>s.split(sep)\<close> for a non-empty separator, which is how the tests read the
  \<^verbatim>\<open>Allow\<close> header (\<^verbatim>\<open>response['Allow'].split(', ')\<close>). \<open>acc\<close> holds the current piece,
  reversed.
\<close>

fun split_acc :: "string \<Rightarrow> string \<Rightarrow> string \<Rightarrow> string list" where
  "split_acc sep acc [] = [rev acc]"
| "split_acc sep acc (c # cs) =
     (if sep \<noteq> [] \<and> take (length sep) (c # cs) = sep
      then rev acc # split_acc sep [] (drop (length sep) (c # cs))
      else split_acc sep (c # acc) cs)"

definition split :: "string \<Rightarrow> string \<Rightarrow> string list" where
  "split s sep = split_acc sep [] s"

text \<open>The two payload shapes of the invariant of the data model, and the keys of a body.\<close>

fun has_keys :: "body \<Rightarrow> string set \<Rightarrow> bool" where
  "has_keys (JSON d) ks = (dom d = ks)"
| "has_keys (Text t) ks = False"

definition success_payload :: "response \<Rightarrow> bool" where
  "success_payload r =
     (status_code r = 200 \<and> has_keys (content r) {''email'', ''redirect''})"

definition failure_payload :: "response \<Rightarrow> bool" where
  "failure_payload r = (status_code r \<noteq> 200 \<and> has_keys (content r) {''redirect''})"

section \<open>Properties\<close>

lemma JSONResponse_sel:
  "status_code (JSONResponse d st) = (case st of None \<Rightarrow> 200 | Some c \<Rightarrow> c)"
  "content (JSONResponse d st) = JSON d"
  "headers (JSONResponse d st) = Map.empty"
  by (simp_all add: JSONResponse_def)

lemma login_failure_None:
  "login_failure s None w = (JSONResponse [''redirect'' \<mapsto> failure_url s] (Some 403), w)"
  by (simp add: login_failure_def)

lemma login_failure_Some:
  "login_failure s (Some e) w =
     (JSONResponse [''redirect'' \<mapsto> failure_url s] (Some 403),
      w\<lparr>calls := calls w @ [Call_logger_error e]\<rparr>)"
  by (simp add: login_failure_def logger_error_def)

lemma Verify_post_falsy:
  assumes "POST request ''assertion'' = None \<or> POST request ''assertion'' = Some []"
  shows "Verify_post backend s is_safe_url request w =
           (JSONResponse [''redirect'' \<mapsto> failure_url s] (Some 403), w)"
  using assms by (auto simp: Verify_post_def login_failure_None)

lemma Verify_post_truthy:
  assumes "POST request ''assertion'' = Some a" and "a \<noteq> []"
  shows "Verify_post backend s is_safe_url request w =
           (case backend request a of
              Inl e \<Rightarrow>
                login_failure s (Some e) (w\<lparr>calls := calls w @ [Call_authenticate a]\<rparr>)
            | Inr None \<Rightarrow>
                login_failure s None (w\<lparr>calls := calls w @ [Call_authenticate a]\<rparr>)
            | Inr (Some u) \<Rightarrow>
                if is_active u
                then login_success s is_safe_url request u
                       (w\<lparr>calls := calls w @ [Call_authenticate a]\<rparr>)
                else login_failure s None (w\<lparr>calls := calls w @ [Call_authenticate a]\<rparr>))"
  using assms
  by (simp add: Verify_post_def auth_authenticate_def split: sum.splits option.splits)

lemma failure_url_unfold:
  "failure_url s = (case s ''LOGIN_REDIRECT_URL_FAILURE'' of None \<Rightarrow> ''/'' | Some v \<Rightarrow> v)"
  by (simp add: failure_url_def getattr_settings_def)

lemma success_url_unfold:
  "success_url s = (case s ''LOGIN_REDIRECT_URL'' of None \<Rightarrow> ''/'' | Some v \<Rightarrow> v)"
  by (simp add: success_url_def getattr_settings_def)

lemma redirect_url_unfold:
  "redirect_url s = (case s ''LOGOUT_REDIRECT_URL'' of None \<Rightarrow> ''/'' | Some v \<Rightarrow> v)"
  by (simp add: redirect_url_def getattr_settings_def)

lemma py_or_resolved:
  assumes "x \<noteq> Some []"
  shows "py_or x y = (case x of None \<Rightarrow> y | Some n \<Rightarrow> n)"
  using assms by (simp add: py_or_def split: option.splits)

subsection \<open>The verification handler\<close>

text \<open>
  C1. Take a POST to \<^verbatim>\<open>Verify\<close> whose assertion (present and not empty, so that the
  backend is asked) the backend maps to a principal \<open>u\<close> with \<^verbatim>\<open>is_active\<close> set. Then
  \<^verbatim>\<open>auth.login\<close> is called for \<open>u\<close> after the backend, the session holds \<open>u\<close>, and the
  response has status 200 and the JSON body \<open>{email: u.email, redirect: r}\<close>, where
  \<open>r\<close> is the URL that \<^verbatim>\<open>_get_next\<close> resolves, or else the setting
  \<^verbatim>\<open>LOGIN_REDIRECT_URL\<close>, or \<^verbatim>\<open>/\<close> without that setting. An empty string returned by
  the resolver counts as no URL (\<^verbatim>\<open>_get_next(...) or self.success_url\<close>); the
  framework's validator rejects an empty URL, so that with it the resolver never
  returns one.
\<close>

theorem Verify_post_login_success:
  assumes "POST request ''assertion'' = Some a" and "a \<noteq> []"
    and "backend request a = Inr (Some u)" and "is_active u"
  shows "status_code (fst (Verify_post backend s is_safe_url request w)) = 200 \<and>
         session (snd (Verify_post backend s is_safe_url request w)) = Some u \<and>
         calls (snd (Verify_post backend s is_safe_url request w)) =
           calls w @ [Call_authenticate a, Call_login u] \<and>
         content (fst (Verify_post backend s is_safe_url request w)) =
           JSON [''email'' \<mapsto> email u,
                 ''redirect'' \<mapsto>
                   (case get_next is_safe_url request of
                      Some n \<Rightarrow>
                        if n = [] then getattr_settings s ''LOGIN_REDIRECT_URL'' else n
                    | None \<Rightarrow> getattr_settings s ''LOGIN_REDIRECT_URL'')] \<and>
         (get_next is_safe_url request \<noteq> Some [] \<longrightarrow>
          content (fst (Verify_post backend s is_safe_url request w)) =
            JSON [''email'' \<mapsto> email u,
                  ''redirect'' \<mapsto>
                    (case get_next is_safe_url request of
                       Some n \<Rightarrow> n
                     | None \<Rightarrow>
                         (case s ''LOGIN_REDIRECT_URL'' of None \<Rightarrow> ''/'' | Some v \<Rightarrow> v))])"
proof -
  have post: "Verify_post backend s is_safe_url request w =
          login_success s is_safe_url request u
            (w\<lparr>calls := calls w @ [Call_authenticate a]\<rparr>)"
    using assms by (simp add: Verify_post_truthy)
  have "py_or (get_next is_safe_url request) (success_url s) =
          (case get_next is_safe_url request of
             Some n \<Rightarrow> n
           | None \<Rightarrow> (case s ''LOGIN_REDIRECT_URL'' of None \<Rightarrow> ''/'' | Some v \<Rightarrow> v))"
    if "get_next is_safe_url request \<noteq> Some []"
    using that by (simp add: py_or_resolved success_url_unfold split: option.splits)
  moreover have "py_or (get_next is_safe_url request) (success_url s) =
          (case get_next is_safe_url request of
             Some n \<Rightarrow> if n = [] then getattr_settings s ''LOGIN_REDIRECT_URL'' else n
           | None \<Rightarrow> getattr_settings s ''LOGIN_REDIRECT_URL'')"
    by (simp add: py_or_def success_url_def split: option.splits)
  ultimately show ?thesis
    using post by (simp add: login_success_def auth_login_def JSONResponse_sel)
qed

theorem Verify_post_login_success_witness:
  "POST \<lparr>method = ''POST'', POST = [''assertion'' \<mapsto> ''valid-token''], host = ''testserver''\<rparr>
     ''assertion'' = Some ''valid-token'' \<and>
   ''valid-token'' \<noteq> [] \<and>
   is_active \<lparr>email = ''a@b.com'', is_active = True\<rparr> \<and>
   get_next (\<lambda>url h. False)
     \<lparr>method = ''POST'', POST = [''assertion'' \<mapsto> ''valid-token''], host = ''testserver''\<rparr>
     \<noteq> Some [] \<and>
   status_code (fst (Verify_post
     (\<lambda>r a. Inr (Some \<lparr>email = ''a@b.com'', is_active = True\<rparr>))
     [''LOGIN_REDIRECT_URL'' \<mapsto> ''/success''] (\<lambda>url h. False)
     \<lparr>method = ''POST'', POST = [''assertion'' \<mapsto> ''valid-token''], host = ''testserver''\<rparr>
     \<lparr>session = None, calls = []\<rparr>)) = 200 \<and>
   content (fst (Verify_post
     (\<lambda>r a. Inr (Some \<lparr>email = ''a@b.com'', is_active = True\<rparr>))
     [''LOGIN_REDIRECT_URL'' \<mapsto> ''/success''] (\<lambda>url h. False)
     \<lparr>method = ''POST'', POST = [''assertion'' \<mapsto> ''valid-token''], host = ''testserver''\<rparr>
     \<lparr>session = None, calls = []\<rparr>)) =
     JSON [''email'' \<mapsto> ''a@b.com'', ''redirect'' \<mapsto> ''/success''] \<and>
   session (snd (Verify_post
     (\<lambda>r a. Inr (Some \<lparr>email = ''a@b.com'', is_active = True\<rparr>))
     [''LOGIN_REDIRECT_URL'' \<mapsto> ''/success''] (\<lambda>url h. False)
     \<lparr>method = ''POST'', POST = [''assertion'' \<mapsto> ''valid-token''], host = ''testserver''\<rparr>
     \<lparr>session = None, calls = []\<rparr>)) = Some \<lparr>email = ''a@b.com'', is_active = True\<rparr> \<and>
   calls (snd (Verify_post
     (\<lambda>r a. Inr (Some \<lparr>email = ''a@b.com'', is_active = True\<rparr>))
     [''LOGIN_REDIRECT_URL'' \<mapsto> ''/success''] (\<lambda>url h. False)
     \<lparr>method = ''POST'', POST = [''assertion'' \<mapsto> ''valid-token''], host = ''testserver''\<rparr>
     \<lparr>session = None, calls = []\<rparr>)) =
     [Call_authenticate ''valid-token'',
      Call_login \<lparr>email = ''a@b.com'', is_active = True\<rparr>]"
  using Verify_post_login_success
    [of "\<lparr>method = ''POST'', POST = [''assertion'' \<mapsto> ''valid-token''], host = ''testserver''\<rparr>"
        "''valid-token''"
        "\<lambda>r a. Inr (Some \<lparr>email = ''a@b.com'', is_active = True\<rparr>)"
        "\<lparr>email = ''a@b.com'', is_active = True\<rparr>"
        "[''LOGIN_REDIRECT_URL'' \<mapsto> ''/success'']"
        "\<lambda>url h. False"
        "\<lparr>session = None, calls = []\<rparr>"]
  by (simp add: get_next_def getattr_settings_def)

text \<open>
  C2. A POST to \<^verbatim>\<open>Verify\<close> without an \<^verbatim>\<open>assertion\<close> parameter is answered with status
  403 and the JSON body \<open>{redirect: failure URL}\<close>, where the failure URL is the
  setting \<^verbatim>\<open>LOGIN_REDIRECT_URL_FAILURE\<close>, or \<^verbatim>\<open>/\<close> without that setting. The state is
  returned as it was, so no call reached the authentication backend, and the answer
  does not depend on what the backend would have said.
\<close>

theorem Verify_post_missing_assertion:
  assumes "POST request ''assertion'' = None"
  shows "status_code (fst (Verify_post backend s is_safe_url request w)) = 403 \<and>
         content (fst (Verify_post backend s is_safe_url request w)) =
           JSON [''redirect'' \<mapsto>
                   (case s ''LOGIN_REDIRECT_URL_FAILURE'' of None \<Rightarrow> ''/'' | Some v \<Rightarrow> v)] \<and>
         snd (Verify_post backend s is_safe_url request w) = w \<and>
         (\<forall>backend'. Verify_post backend' s is_safe_url request w =
                       Verify_post backend s is_safe_url request w)"
  using assms by (simp add: Verify_post_falsy JSONResponse_sel failure_url_unfold)

theorem Verify_post_missing_assertion_witness:
  "POST \<lparr>method = ''POST'', POST = [''blah'' \<mapsto> ''asdf''], host = ''testserver''\<rparr>
     ''assertion'' = None \<and>
   status_code (fst (Verify_post (\<lambda>r a. Inl (Exception ''unreachable''))
     [''LOGIN_REDIRECT_URL_FAILURE'' \<mapsto> ''/fail''] (\<lambda>url h. True)
     \<lparr>method = ''POST'', POST = [''blah'' \<mapsto> ''asdf''], host = ''testserver''\<rparr>
     \<lparr>session = None, calls = []\<rparr>)) = 403 \<and>
   content (fst (Verify_post (\<lambda>r a. Inl (Exception ''unreachable''))
     [''LOGIN_REDIRECT_URL_FAILURE'' \<mapsto> ''/fail''] (\<lambda>url h. True)
     \<lparr>method = ''POST'', POST = [''blah'' \<mapsto> ''asdf''], host = ''testserver''\<rparr>
     \<lparr>session = None, calls = []\<rparr>)) = JSON [''redirect'' \<mapsto> ''/fail''] \<and>
   snd (Verify_post (\<lambda>r a. Inl (Exception ''unreachable''))
     [''LOGIN_REDIRECT_URL_FAILURE'' \<mapsto> ''/fail''] (\<lambda>url h. True)
     \<lparr>method = ''POST'', POST = [''blah'' \<mapsto> ''asdf''], host = ''testserver''\<rparr>
     \<lparr>session = None, calls = []\<rparr>) = \<lparr>session = None, calls = []\<rparr>"
  using Verify_post_missing_assertion
    [of "\<lparr>method = ''POST'', POST = [''blah'' \<mapsto> ''asdf''], host = ''testserver''\<rparr>"
        "\<lambda>r a. Inl (Exception ''unreachable'')"
        "[''LOGIN_REDIRECT_URL_FAILURE'' \<mapsto> ''/fail'']"
        "\<lambda>url h. True"
        "\<lparr>session = None, calls = []\<rparr>"]
  by simp

text \<open>
  C3. Take a POST to \<^verbatim>\<open>Verify\<close> with a non-empty assertion on which the backend raises
  \<open>e\<close>, a \<^verbatim>\<open>BrowserIDException\<close> or any other exception. The failure path is entered
  with \<open>e\<close>: the response is the 403 JSON failure response \<open>{redirect: failure URL}\<close>,
  the same one that the failure path gives without an error, and \<open>e\<close> is passed to
  \<^verbatim>\<open>logger.error\<close> right after the backend call. In general \<^verbatim>\<open>login_failure\<close> logs exactly the error it is given, and
  nothing when it is given none.
\<close>

theorem Verify_post_backend_error:
  assumes "POST request ''assertion'' = Some a" and "a \<noteq> []"
    and "backend request a = Inl e"
  shows "status_code (fst (Verify_post backend s is_safe_url request w)) = 403 \<and>
         content (fst (Verify_post backend s is_safe_url request w)) =
           JSON [''redirect'' \<mapsto>
                   (case s ''LOGIN_REDIRECT_URL_FAILURE'' of None \<Rightarrow> ''/'' | Some v \<Rightarrow> v)] \<and>
         Verify_post backend s is_safe_url request w =
           login_failure s (Some e) (w\<lparr>calls := calls w @ [Call_authenticate a]\<rparr>) \<and>
         fst (Verify_post backend s is_safe_url request w) = fst (login_failure s None w) \<and>
         calls (snd (Verify_post backend s is_safe_url request w)) =
           calls w @ [Call_authenticate a, Call_logger_error e] \<and>
         session (snd (Verify_post backend s is_safe_url request w)) = session w \<and>
         (\<forall>err w0. calls (snd (login_failure s err w0)) =
                     calls w0 @ (case err of None \<Rightarrow> [] | Some x \<Rightarrow> [Call_logger_error x]))"
proof -
  have "Verify_post backend s is_safe_url request w =
          login_failure s (Some e) (w\<lparr>calls := calls w @ [Call_authenticate a]\<rparr>)"
    using assms by (simp add: Verify_post_truthy)
  moreover have "calls (snd (login_failure s err w0)) =
          calls w0 @ (case err of None \<Rightarrow> [] | Some x \<Rightarrow> [Call_logger_error x])" for err w0
    by (cases err) (simp_all add: login_failure_None login_failure_Some)
  ultimately show ?thesis
    by (simp add: login_failure_None login_failure_Some JSONResponse_sel failure_url_unfold)
qed

theorem Verify_post_backend_error_witness:
  "POST \<lparr>method = ''POST'', POST = [''assertion'' \<mapsto> ''asdf''], host = ''testserver''\<rparr>
     ''assertion'' = Some ''asdf'' \<and>
   ''asdf'' \<noteq> [] \<and>
   status_code (fst (Verify_post (\<lambda>r a. Inl (BrowserIDException ''hsakjw''))
     [''LOGIN_REDIRECT_URL_FAILURE'' \<mapsto> ''/fail''] (\<lambda>url h. True)
     \<lparr>method = ''POST'', POST = [''assertion'' \<mapsto> ''asdf''], host = ''testserver''\<rparr>
     \<lparr>session = None, calls = []\<rparr>)) = 403 \<and>
   content (fst (Verify_post (\<lambda>r a. Inl (BrowserIDException ''hsakjw''))
     [''LOGIN_REDIRECT_URL_FAILURE'' \<mapsto> ''/fail''] (\<lambda>url h. True)
     \<lparr>method = ''POST'', POST = [''assertion'' \<mapsto> ''asdf''], host = ''testserver''\<rparr>
     \<lparr>session = None, calls = []\<rparr>)) = JSON [''redirect'' \<mapsto> ''/fail''] \<and>
   calls (snd (Verify_post (\<lambda>r a. Inl (BrowserIDException ''hsakjw''))
     [''LOGIN_REDIRECT_URL_FAILURE'' \<mapsto> ''/fail''] (\<lambda>url h. True)
     \<lparr>method = ''POST'', POST = [''assertion'' \<mapsto> ''asdf''], host = ''testserver''\<rparr>
     \<lparr>session = None, calls = []\<rparr>)) =
     [Call_authenticate ''asdf'', Call_logger_error (BrowserIDException ''hsakjw'')]"
  using Verify_post_backend_error
    [of "\<lparr>method = ''POST'', POST = [''assertion'' \<mapsto> ''asdf''], host = ''testserver''\<rparr>"
        "''asdf''"
        "\<lambda>r a. Inl (BrowserIDException ''hsakjw'')"
        "BrowserIDException ''hsakjw''"
        "[''LOGIN_REDIRECT_URL_FAILURE'' \<mapsto> ''/fail'']"
        "\<lambda>url h. True"
        "\<lparr>session = None, calls = []\<rparr>"]
  by (simp (no_asm_use)) blast

text \<open>
  C4. Take a POST to \<^verbatim>\<open>Verify\<close> with a non-empty assertion for which the backend
  returns, without raising, \<^verbatim>\<open>None\<close> or a principal whose \<^verbatim>\<open>is_active\<close> is false. The
  failure path is entered without an error: the response has status 403 and the body
  \<open>{redirect: failure URL}\<close>, and the only call made is the one to the backend, so
  nothing is logged and no session is set up.
\<close>

theorem Verify_post_no_active_principal:
  assumes "POST request ''assertion'' = Some a" and "a \<noteq> []"
    and "backend request a = Inr p"
    and "p = None \<or> (\<exists>u. p = Some u \<and> \<not> is_active u)"
  shows "status_code (fst (Verify_post backend s is_safe_url request w)) = 403 \<and>
         content (fst (Verify_post backend s is_safe_url request w)) =
           JSON [''redirect'' \<mapsto>
                   (case s ''LOGIN_REDIRECT_URL_FAILURE'' of None \<Rightarrow> ''/'' | Some v \<Rightarrow> v)] \<and>
         Verify_post backend s is_safe_url request w =
           login_failure s None (w\<lparr>calls := calls w @ [Call_authenticate a]\<rparr>) \<and>
         calls (snd (Verify_post backend s is_safe_url request w)) =
           calls w @ [Call_authenticate a] \<and>
         session (snd (Verify_post backend s is_safe_url request w)) = session w"
proof -
  have "Verify_post backend s is_safe_url request w =
          login_failure s None (w\<lparr>calls := calls w @ [Call_authenticate a]\<rparr>)"
    using assms by (auto simp: Verify_post_truthy)
  then show ?thesis
    by (simp add: login_failure_None JSONResponse_sel failure_url_unfold)
qed

theorem Verify_post_no_active_principal_witness:
  "POST \<lparr>method = ''POST'', POST = [''assertion'' \<mapsto> ''asdf''], host = ''testserver''\<rparr>
     ''assertion'' = Some ''asdf'' \<and>
   ''asdf'' \<noteq> [] \<and>
   \<not> is_active \<lparr>email = ''a@b.com'', is_active = False\<rparr> \<and>
   status_code (fst (Verify_post
     (\<lambda>r a. Inr (Some \<lparr>email = ''a@b.com'', is_active = False\<rparr>))
     [''LOGIN_REDIRECT_URL_FAILURE'' \<mapsto> ''/fail''] (\<lambda>url h. True)
     \<lparr>method = ''POST'', POST = [''assertion'' \<mapsto> ''asdf''], host = ''testserver''\<rparr>
     \<lparr>session = None, calls = []\<rparr>)) = 403 \<and>
   content (fst (Verify_post
     (\<lambda>r a. Inr (Some \<lparr>email = ''a@b.com'', is_active = False\<rparr>))
     [''LOGIN_REDIRECT_URL_FAILURE'' \<mapsto> ''/fail''] (\<lambda>url h. True)
     \<lparr>method = ''POST'', POST = [''assertion'' \<mapsto> ''asdf''], host = ''testserver''\<rparr>
     \<lparr>session = None, calls = []\<rparr>)) = JSON [''redirect'' \<mapsto> ''/fail''] \<and>
   calls (snd (Verify_post
     (\<lambda>r a. Inr (Some \<lparr>email = ''a@b.com'', is_active = False\<rparr>))
     [''LOGIN_REDIRECT_URL_FAILURE'' \<mapsto> ''/fail''] (\<lambda>url h. True)
     \<lparr>method = ''POST'', POST = [''assertion'' \<mapsto> ''asdf''], host = ''testserver''\<rparr>
     \<lparr>session = None, calls = []\<rparr>)) = [Call_authenticate ''asdf'']"
  using Verify_post_no_active_principal
    [of "\<lparr>method = ''POST'', POST = [''assertion'' \<mapsto> ''asdf''], host = ''testserver''\<rparr>"
        "''asdf''"
        "\<lambda>r a. Inr (Some \<lparr>email = ''a@b.com'', is_active = False\<rparr>)"
        "Some \<lparr>email = ''a@b.com'', is_active = False\<rparr>"
        "[''LOGIN_REDIRECT_URL_FAILURE'' \<mapsto> ''/fail'']"
        "\<lambda>url h. True"
        "\<lparr>session = None, calls = []\<rparr>"]
  by (simp (no_asm_use)) blast

text \<open>
  C10. A POST to \<^verbatim>\<open>Verify\<close> whose \<^verbatim>\<open>assertion\<close> parameter is the empty string is treated
  as one without the parameter (\<^verbatim>\<open>if not assertion\<close>): status 403, body
  \<open>{redirect: failure URL}\<close>, the state returned as it was, hence no call to the
  backend, and the very result of the same request with the parameter removed.
\<close>

theorem Verify_post_empty_assertion:
  assumes "POST request ''assertion'' = Some []"
  shows "status_code (fst (Verify_post backend s is_safe_url request w)) = 403 \<and>
         content (fst (Verify_post backend s is_safe_url request w)) =
           JSON [''redirect'' \<mapsto>
                   (case s ''LOGIN_REDIRECT_URL_FAILURE'' of None \<Rightarrow> ''/'' | Some v \<Rightarrow> v)] \<and>
         snd (Verify_post backend s is_safe_url request w) = w \<and>
         Verify_post backend s is_safe_url request w =
           Verify_post backend s is_safe_url
             (request\<lparr>POST := (POST request)(''assertion'' := None)\<rparr>) w"
  using assms by (simp add: Verify_post_falsy JSONResponse_sel failure_url_unfold)

theorem Verify_post_empty_assertion_witness:
  "POST \<lparr>method = ''POST'', POST = [''assertion'' \<mapsto> []], host = ''testserver''\<rparr>
     ''assertion'' = Some [] \<and>
   status_code (fst (Verify_post
     (\<lambda>r a. Inr (Some \<lparr>email = ''a@b.com'', is_active = True\<rparr>))
     [''LOGIN_REDIRECT_URL_FAILURE'' \<mapsto> ''/fail''] (\<lambda>url h. True)
     \<lparr>method = ''POST'', POST = [''assertion'' \<mapsto> []], host = ''testserver''\<rparr>
     \<lparr>session = None, calls = []\<rparr>)) = 403 \<and>
   content (fst (Verify_post
     (\<lambda>r a. Inr (Some \<lparr>email = ''a@b.com'', is_active = True\<rparr>))
     [''LOGIN_REDIRECT_URL_FAILURE'' \<mapsto> ''/fail''] (\<lambda>url h. True)
     \<lparr>method = ''POST'', POST = [''assertion'' \<mapsto> []], host = ''testserver''\<rparr>
     \<lparr>session = None, calls = []\<rparr>)) = JSON [''redirect'' \<mapsto> ''/fail''] \<and>
   snd (Verify_post
     (\<lambda>r a. Inr (Some \<lparr>email = ''a@b.com'', is_active = True\<rparr>))
     [''LOGIN_REDIRECT_URL_FAILURE'' \<mapsto> ''/fail''] (\<lambda>url h. True)
     \<lparr>method = ''POST'', POST = [''assertion'' \<mapsto> []], host = ''testserver''\<rparr>
     \<lparr>session = None, calls = []\<rparr>) = \<lparr>session = None, calls = []\<rparr>"
  using Verify_post_empty_assertion
    [of "\<lparr>method = ''POST'', POST = [''assertion'' \<mapsto> []], host = ''testserver''\<rparr>"
        "\<lambda>r a. Inr (Some \<lparr>email = ''a@b.com'', is_active = True\<rparr>)"
        "[''LOGIN_REDIRECT_URL_FAILURE'' \<mapsto> ''/fail'']"
        "\<lambda>url h. True"
        "\<lparr>session = None, calls = []\<rparr>"]
  by (simp (no_asm_use)) blast

subsection \<open>The redirect-target resolver\<close>

text \<open>
  C5. \<^verbatim>\<open>_get_next\<close> returns the \<^verbatim>\<open>next\<close> POST parameter when the parameter is present and
  the validator, asked with the host of the request, accepts it, and \<^verbatim>\<open>None\<close> in
  every other case. It is a function of the request alone and touches no state.
  When the validator does not accept the parameter, the redirect of the login
  response is the configured success URL and the redirect of the logout response is
  the configured logout URL; the states that the two handlers return do not depend
  on the validator.
\<close>

theorem get_next_safe_or_none:
  "get_next is_safe_url request =
     (case POST request ''next'' of
        None \<Rightarrow> None
      | Some n \<Rightarrow> if is_safe_url (Some n) (host request) then Some n else None) \<and>
   (\<not> is_safe_url (POST request ''next'') (host request) \<longrightarrow>
      get_next is_safe_url request = None \<and>
      content (fst (login_success s is_safe_url request u w)) =
        JSON [''email'' \<mapsto> email u,
              ''redirect'' \<mapsto>
                (case s ''LOGIN_REDIRECT_URL'' of None \<Rightarrow> ''/'' | Some v \<Rightarrow> v)] \<and>
      content (fst (Logout_post s is_safe_url request w)) =
        JSON [''redirect'' \<mapsto>
                (case s ''LOGOUT_REDIRECT_URL'' of None \<Rightarrow> ''/'' | Some v \<Rightarrow> v)]) \<and>
   (\<forall>validator.
      snd (login_success s validator request u w) =
        snd (login_success s is_safe_url request u w) \<and>
      snd (Logout_post s validator request w) = snd (Logout_post s is_safe_url request w))"
proof -
  have resolver: "get_next is_safe_url request =
     (case POST request ''next'' of
        None \<Rightarrow> None
      | Some n \<Rightarrow> if is_safe_url (Some n) (host request) then Some n else None)"
    by (simp add: get_next_def Let_def split: option.splits)
  have unsafe: "get_next is_safe_url request = None"
    if "\<not> is_safe_url (POST request ''next'') (host request)"
    using that by (simp add: get_next_def)
  have pure: "snd (login_success s validator request u w) =
        snd (login_success s is_safe_url request u w) \<and>
      snd (Logout_post s validator request w) = snd (Logout_post s is_safe_url request w)"
    for validator
    by (simp add: login_success_def Logout_post_def)
  show ?thesis
    using resolver unsafe pure
    by (simp add: login_success_def Logout_post_def JSONResponse_sel py_or_def
          success_url_unfold redirect_url_unfold)
qed

theorem get_next_safe_or_none_witness:
  "\<not> (\<lambda>url h. url = Some ''/asdf'')
       (POST \<lparr>method = ''POST'', POST = [''next'' \<mapsto> ''http://evil.example/''],
              host = ''myhost''\<rparr> ''next'') ''myhost'' \<and>
   get_next (\<lambda>url h. url = Some ''/asdf'')
     \<lparr>method = ''POST'', POST = [''next'' \<mapsto> ''http://evil.example/''], host = ''myhost''\<rparr>
     = None \<and>
   content (fst (login_success [''LOGIN_REDIRECT_URL'' \<mapsto> ''/success'']
     (\<lambda>url h. url = Some ''/asdf'')
     \<lparr>method = ''POST'', POST = [''next'' \<mapsto> ''http://evil.example/''], host = ''myhost''\<rparr>
     \<lparr>email = ''a@b.com'', is_active = True\<rparr>
     \<lparr>session = None, calls = []\<rparr>)) =
     JSON [''email'' \<mapsto> ''a@b.com'', ''redirect'' \<mapsto> ''/success''] \<and>
   content (fst (Logout_post [''LOGIN_REDIRECT_URL'' \<mapsto> ''/success'']
     (\<lambda>url h. url = Some ''/asdf'')
     \<lparr>method = ''POST'', POST = [''next'' \<mapsto> ''http://evil.example/''], host = ''myhost''\<rparr>
     \<lparr>session = None, calls = []\<rparr>)) = JSON [''redirect'' \<mapsto> ''/'']"
  using get_next_safe_or_none
    [of "\<lambda>url h. url = Some ''/asdf''"
        "\<lparr>method = ''POST'', POST = [''next'' \<mapsto> ''http://evil.example/''], host = ''myhost''\<rparr>"
        "[''LOGIN_REDIRECT_URL'' \<mapsto> ''/success'']"
        "\<lparr>email = ''a@b.com'', is_active = True\<rparr>"
        "\<lparr>session = None, calls = []\<rparr>"]
  by (simp (no_asm_use)) blast

subsection \<open>The logout handler\<close>

text \<open>
  C7. A POST to \<^verbatim>\<open>Logout\<close> calls \<^verbatim>\<open>auth.logout\<close>, after which no principal is in the
  session, whatever the redirect resolves to. The response has status 200 and the
  JSON body \<open>{redirect: r}\<close>, where \<open>r\<close> is the URL that \<^verbatim>\<open>_get_next\<close> resolves, or else
  the setting \<^verbatim>\<open>LOGOUT_REDIRECT_URL\<close>, or \<^verbatim>\<open>/\<close> without that setting. An empty string
  returned by the resolver counts as no URL (\<^verbatim>\<open>_get_next(...) or self.redirect_url\<close>);
  the framework's validator rejects an empty URL, so that with it the resolver never
  returns one.
\<close>

theorem Logout_post_response:
  "status_code (fst (Logout_post s is_safe_url request w)) = 200 \<and>
   session (snd (Logout_post s is_safe_url request w)) = None \<and>
   calls (snd (Logout_post s is_safe_url request w)) = calls w @ [Call_logout] \<and>
   content (fst (Logout_post s is_safe_url request w)) =
     JSON [''redirect'' \<mapsto>
             (case get_next is_safe_url request of
                Some n \<Rightarrow> if n = [] then getattr_settings s ''LOGOUT_REDIRECT_URL'' else n
              | None \<Rightarrow> getattr_settings s ''LOGOUT_REDIRECT_URL'')] \<and>
   (get_next is_safe_url request \<noteq> Some [] \<longrightarrow>
    content (fst (Logout_post s is_safe_url request w)) =
      JSON [''redirect'' \<mapsto>
              (case get_next is_safe_url request of
                 Some n \<Rightarrow> n
               | None \<Rightarrow>
                   (case s ''LOGOUT_REDIRECT_URL'' of None \<Rightarrow> ''/'' | Some v \<Rightarrow> v))])"
proof -
  have "py_or (get_next is_safe_url request) (redirect_url s) =
          (case get_next is_safe_url request of
             Some n \<Rightarrow> n
           | None \<Rightarrow> (case s ''LOGOUT_REDIRECT_URL'' of None \<Rightarrow> ''/'' | Some v \<Rightarrow> v))"
    if "get_next is_safe_url request \<noteq> Some []"
    using that by (simp add: py_or_resolved redirect_url_unfold split: option.splits)
  moreover have "py_or (get_next is_safe_url request) (redirect_url s) =
          (case get_next is_safe_url request of
             Some n \<Rightarrow> if n = [] then getattr_settings s ''LOGOUT_REDIRECT_URL'' else n
           | None \<Rightarrow> getattr_settings s ''LOGOUT_REDIRECT_URL'')"
    by (simp add: py_or_def redirect_url_def split: option.splits)
  ultimately show ?thesis
    by (simp add: Logout_post_def auth_logout_def JSONResponse_sel)
qed

theorem Logout_post_response_witness:
  "get_next (\<lambda>url h. True)
     \<lparr>method = ''POST'', POST = [''next'' \<mapsto> ''/test/bar''], host = ''testserver''\<rparr>
     \<noteq> Some [] \<and>
   status_code (fst (Logout_post [''LOGOUT_REDIRECT_URL'' \<mapsto> ''/test/foo''] (\<lambda>url h. True)
     \<lparr>method = ''POST'', POST = [''next'' \<mapsto> ''/test/bar''], host = ''testserver''\<rparr>
     \<lparr>session = Some \<lparr>email = ''a@b.com'', is_active = True\<rparr>, calls = []\<rparr>)) = 200 \<and>
   session (snd (Logout_post [''LOGOUT_REDIRECT_URL'' \<mapsto> ''/test/foo''] (\<lambda>url h. True)
     \<lparr>method = ''POST'', POST = [''next'' \<mapsto> ''/test/bar''], host = ''testserver''\<rparr>
     \<lparr>session = Some \<lparr>email = ''a@b.com'', is_active = True\<rparr>, calls = []\<rparr>)) = None \<and>
   calls (snd (Logout_post [''LOGOUT_REDIRECT_URL'' \<mapsto> ''/test/foo''] (\<lambda>url h. True)
     \<lparr>method = ''POST'', POST = [''next'' \<mapsto> ''/test/bar''], host = ''testserver''\<rparr>
     \<lparr>session = Some \<lparr>email = ''a@b.com'', is_active = True\<rparr>, calls = []\<rparr>)) =
     [Call_logout] \<and>
   content (fst (Logout_post [''LOGOUT_REDIRECT_URL'' \<mapsto> ''/test/foo''] (\<lambda>url h. True)
     \<lparr>method = ''POST'', POST = [''next'' \<mapsto> ''/test/bar''], host = ''testserver''\<rparr>
     \<lparr>session = Some \<lparr>email = ''a@b.com'', is_active = True\<rparr>, calls = []\<rparr>)) =
     JSON [''redirect'' \<mapsto> ''/test/bar'']"
  using Logout_post_response
    [of "[''LOGOUT_REDIRECT_URL'' \<mapsto> ''/test/foo'']"
        "\<lambda>url h. True"
        "\<lparr>method = ''POST'', POST = [''next'' \<mapsto> ''/test/bar''], host = ''testserver''\<rparr>"
        "\<lparr>session = Some \<lparr>email = ''a@b.com'', is_active = True\<rparr>, calls = []\<rparr>"]
  by (simp add: get_next_def getattr_settings_def)

subsection \<open>The CSRF token handler\<close>

text \<open>
  C8. A GET to \<^verbatim>\<open>CsrfToken\<close> is answered with status 200, the header
  \<^verbatim>\<open>Cache-Control: max-age=0\<close> and a plain-text body that is a string: the token of
  the request context when that is a string, the empty string when the context has
  no token, and for a lazy token the string that its evaluation gives; in that case
  the state returned is the one left by the evaluation, so the evaluation took place
  before the response was built.
\<close>

theorem CsrfToken_get_response:
  "status_code (fst (CsrfToken_get context request w)) = 200 \<and>
   headers (fst (CsrfToken_get context request w)) ''Cache-Control'' = Some ''max-age=0'' \<and>
   (case context request ''csrf_token'' of
      None \<Rightarrow>
        content (fst (CsrfToken_get context request w)) = Text [] \<and>
        snd (CsrfToken_get context request w) = w
    | Some (Plain t) \<Rightarrow>
        content (fst (CsrfToken_get context request w)) = Text t \<and>
        snd (CsrfToken_get context request w) = w
    | Some (Lazy f) \<Rightarrow>
        content (fst (CsrfToken_get context request w)) = Text (fst (f w)) \<and>
        snd (CsrfToken_get context request w) = snd (f w))"
  by (simp add: CsrfToken_get_def never_cache_def HttpResponse_def split_beta
        split: option.splits csrf_value.splits)

subsection \<open>The method-not-allowed envelope\<close>

lemma upper_char_comma: "upper_char c = CHR '','' \<longleftrightarrow> c = CHR '',''"
proof (cases "97 \<le> (of_char c :: nat) \<and> (of_char c :: nat) \<le> 122")
  case True
  have comma: "(of_char (CHR '','') :: nat) = 44"
    by simp
  from True have "(of_char c :: nat) - 32 < 256"
    by linarith
  with True have "(of_char (upper_char c) :: nat) = of_char c - 32"
    by (simp add: upper_char_def Let_def)
  moreover from True have "(of_char c :: nat) - 32 \<noteq> 44" and "(of_char c :: nat) \<noteq> 44"
    by linarith+
  ultimately have "upper_char c \<noteq> CHR '',''" and "c \<noteq> CHR '',''"
    using comma by metis+
  then show ?thesis by simp
next
  case False
  then show ?thesis by (auto simp: upper_char_def Let_def)
qed

lemma upper_no_comma: "CHR '','' \<in> set (upper m) \<longleftrightarrow> CHR '','' \<in> set m"
proof -
  have "CHR '','' = upper_char c \<longleftrightarrow> CHR '','' = c" for c
    using upper_char_comma [of c] by auto
  then show ?thesis
    by (induction m) (simp_all add: upper_def)
qed

lemma split_acc_piece:
  "CHR '','' \<notin> set x \<Longrightarrow> split_acc '', '' acc (x @ rest) = split_acc '', '' (rev x @ acc) rest"
  by (induction x arbitrary: acc) auto

lemma split_acc_join:
  "\<forall>y \<in> set (x # xs). CHR '','' \<notin> set y \<Longrightarrow>
     split_acc '', '' acc (join '', '' (x # xs)) = (rev acc @ x) # xs"
proof (induction xs arbitrary: x acc)
  case Nil
  then show ?case
    using split_acc_piece [of x acc "[]"] by simp
next
  case (Cons y ys)
  have "split_acc '', '' acc (join '', '' (x # y # ys)) =
          split_acc '', '' (rev x @ acc) ('', '' @ join '', '' (y # ys))"
    using Cons.prems split_acc_piece [of x acc "'', '' @ join '', '' (y # ys)"] by simp
  also have "\<dots> = (rev acc @ x) # split_acc '', '' [] (join '', '' (y # ys))"
    by simp
  also have "split_acc '', '' [] (join '', '' (y # ys)) = y # ys"
    using Cons.IH [of y "[]"] Cons.prems by simp
  finally show ?case .
qed

lemma split_join:
  assumes "xs \<noteq> []" and "\<forall>y \<in> set xs. CHR '','' \<notin> set y"
  shows "split (join '', '' xs) '', '' = xs"
proof -
  from assms(1) obtain x xs' where "xs = x # xs'" by (cases xs) auto
  with assms(2) show ?thesis
    using split_acc_join [of x xs' "[]"] by (simp add: split_def)
qed

lemma http_method_not_allowed_sel:
  "status_code (http_method_not_allowed names attrs) = 405"
  "content (http_method_not_allowed names attrs) = JSON [''error'' \<mapsto> ''Method not allowed.'']"
  "headers (http_method_not_allowed names attrs) ''Allow'' =
     Some (join '', '' (map upper (filter (\<lambda>m. attrs m \<noteq> None) names)))"
  by (simp_all add: http_method_not_allowed_def JSONResponse_def Let_def)

text \<open>
  C6. A request whose method, in lower case, is not among \<^verbatim>\<open>http_method_names\<close> or is
  not an attribute of the view is answered by \<^verbatim>\<open>http_method_not_allowed\<close>, with no
  effect on the state: status 405, the JSON body \<open>{error: Method not allowed.}\<close>,
  and an \<^verbatim>\<open>Allow\<close> header that is the upper-cased names of the methods the view has,
  in the order of \<^verbatim>\<open>http_method_names\<close>, joined by a comma and a space. When the view
  has a method at all and no name contains a comma, splitting the header at \<^verbatim>\<open>', '\<close>
  gives back exactly that list of names.
\<close>

theorem dispatch_method_not_allowed:
  assumes "lower (method request) \<notin> set names \<or> attrs (lower (method request)) = None"
  shows "snd (dispatch names attrs request w) = w \<and>
         status_code (fst (dispatch names attrs request w)) = 405 \<and>
         content (fst (dispatch names attrs request w)) =
           JSON [''error'' \<mapsto> ''Method not allowed.''] \<and>
         headers (fst (dispatch names attrs request w)) ''Allow'' =
           Some (join '', '' (map upper (filter (\<lambda>m. attrs m \<noteq> None) names))) \<and>
         ((\<exists>m \<in> set names. attrs m \<noteq> None) \<and> (\<forall>m \<in> set names. CHR '','' \<notin> set m) \<longrightarrow>
          map_option (\<lambda>allow. split allow '', '')
            (headers (fst (dispatch names attrs request w)) ''Allow'') =
            Some (map upper (filter (\<lambda>m. attrs m \<noteq> None) names)))"
proof -
  have d: "dispatch names attrs request w = (http_method_not_allowed names attrs, w)"
    using assms by (auto simp: dispatch_def)
  have "split (join '', '' (map upper (filter (\<lambda>m. attrs m \<noteq> None) names))) '', '' =
          map upper (filter (\<lambda>m. attrs m \<noteq> None) names)"
    if "\<exists>m \<in> set names. attrs m \<noteq> None" and "\<forall>m \<in> set names. CHR '','' \<notin> set m"
  proof (rule split_join)
    from that(1) show "map upper (filter (\<lambda>m. attrs m \<noteq> None) names) \<noteq> []"
      by (simp add: filter_empty_conv)
    from that(2) show "\<forall>y \<in> set (map upper (filter (\<lambda>m. attrs m \<noteq> None) names)).
        CHR '','' \<notin> set y"
      by (auto simp: upper_no_comma)
  qed
  with d show ?thesis
    by (simp add: http_method_not_allowed_sel)
qed


lemma lower_GET: "lower ''GET'' = ''get''"
  by code_simp

lemma upper_post: "upper ''post'' = ''POST''"
  by code_simp

theorem dispatch_method_not_allowed_witness:
  "[''post'' \<mapsto> Logout_post Map.empty (\<lambda>url h. False)]
     (lower (method \<lparr>method = ''GET'', POST = Map.empty, host = ''testserver''\<rparr>)) = None \<and>
   status_code (fst (dispatch
     [''get'', ''post'', ''put'', ''delete'', ''head'', ''options'', ''trace'']
     [''post'' \<mapsto> Logout_post Map.empty (\<lambda>url h. False)]
     \<lparr>method = ''GET'', POST = Map.empty, host = ''testserver''\<rparr>
     \<lparr>session = None, calls = []\<rparr>)) = 405 \<and>
   content (fst (dispatch
     [''get'', ''post'', ''put'', ''delete'', ''head'', ''options'', ''trace'']
     [''post'' \<mapsto> Logout_post Map.empty (\<lambda>url h. False)]
     \<lparr>method = ''GET'', POST = Map.empty, host = ''testserver''\<rparr>
     \<lparr>session = None, calls = []\<rparr>)) = JSON [''error'' \<mapsto> ''Method not allowed.''] \<and>
   headers (fst (dispatch
     [''get'', ''post'', ''put'', ''delete'', ''head'', ''options'', ''trace'']
     [''post'' \<mapsto> Logout_post Map.empty (\<lambda>url h. False)]
     \<lparr>method = ''GET'', POST = Map.empty, host = ''testserver''\<rparr>
     \<lparr>session = None, calls = []\<rparr>)) ''Allow'' = Some ''POST'' \<and>
   map_option (\<lambda>allow. split allow '', '') (headers (fst (dispatch
     [''get'', ''post'', ''put'', ''delete'', ''head'', ''options'', ''trace'']
     [''post'' \<mapsto> Logout_post Map.empty (\<lambda>url h. False)]
     \<lparr>method = ''GET'', POST = Map.empty, host = ''testserver''\<rparr>
     \<lparr>session = None, calls = []\<rparr>)) ''Allow'') = Some [''POST'']"
  using dispatch_method_not_allowed
    [of "\<lparr>method = ''GET'', POST = Map.empty, host = ''testserver''\<rparr>"
        "[''get'', ''post'', ''put'', ''delete'', ''head'', ''options'', ''trace'']"
        "[''post'' \<mapsto> Logout_post Map.empty (\<lambda>url h. False)]"
        "\<lparr>session = None, calls = []\<rparr>"]
  by (simp add: lower_GET upper_post split_def)

subsection \<open>The shapes of the responses\<close>

lemma login_failure_shape:
  "failure_payload (fst (login_failure s err w)) \<and>
   status_code (fst (login_failure s err w)) = 403 \<and>
   \<not> success_payload (fst (login_failure s err w))"
  by (cases err)
    (simp_all add: login_failure_None login_failure_Some JSONResponse_sel
       failure_payload_def success_payload_def)

lemma login_success_shape:
  "success_payload (fst (login_success s is_safe_url request u w)) \<and>
   \<not> failure_payload (fst (login_success s is_safe_url request u w))"
  by (auto simp: login_success_def JSONResponse_sel failure_payload_def success_payload_def)

lemma Verify_post_paths:
  "(\<exists>err w0. Verify_post backend s is_safe_url request w = login_failure s err w0) \<or>
   (\<exists>u w0. Verify_post backend s is_safe_url request w =
              login_success s is_safe_url request u w0)"
  by (auto simp: Verify_post_def auth_authenticate_def split: option.splits sum.splits)

text \<open>
  C9, as the code has it. Every response of \<^verbatim>\<open>Verify.post\<close> is either a success payload
  (status 200, exactly the keys \<^verbatim>\<open>email\<close> and \<^verbatim>\<open>redirect\<close>) or a failure payload (status
  403, the key \<^verbatim>\<open>redirect\<close> alone), never both, and so never \<^verbatim>\<open>email\<close> without
  \<^verbatim>\<open>redirect\<close>. The method-not-allowed response of a handler is of neither shape: its
  status is 405 and its only key is \<^verbatim>\<open>error\<close>.
\<close>

theorem Verify_response_shapes:
  "(success_payload (fst (Verify_post backend s is_safe_url request w)) \<and>
      \<not> failure_payload (fst (Verify_post backend s is_safe_url request w)) \<or>
    failure_payload (fst (Verify_post backend s is_safe_url request w)) \<and>
      status_code (fst (Verify_post backend s is_safe_url request w)) = 403 \<and>
      \<not> success_payload (fst (Verify_post backend s is_safe_url request w))) \<and>
   status_code (http_method_not_allowed names attrs) = 405 \<and>
   has_keys (content (http_method_not_allowed names attrs)) {''error''} \<and>
   \<not> success_payload (http_method_not_allowed names attrs) \<and>
   \<not> failure_payload (http_method_not_allowed names attrs)"
proof -
  have "success_payload (fst (Verify_post backend s is_safe_url request w)) \<and>
      \<not> failure_payload (fst (Verify_post backend s is_safe_url request w)) \<or>
    failure_payload (fst (Verify_post backend s is_safe_url request w)) \<and>
      status_code (fst (Verify_post backend s is_safe_url request w)) = 403 \<and>
      \<not> success_payload (fst (Verify_post backend s is_safe_url request w))"
    using Verify_post_paths [of backend s is_safe_url request w]
      login_failure_shape login_success_shape
    by (elim disjE exE) simp_all
  moreover have "status_code (http_method_not_allowed names attrs) = 405 \<and>
      has_keys (content (http_method_not_allowed names attrs)) {''error''} \<and>
      \<not> success_payload (http_method_not_allowed names attrs) \<and>
      \<not> failure_payload (http_method_not_allowed names attrs)"
    by (auto simp: http_method_not_allowed_sel failure_payload_def success_payload_def)
  ultimately show ?thesis by blast
qed

text \<open>
  C9 as it is stated fails: a GET sent to the \<^verbatim>\<open>Verify\<close> view, which has \<^verbatim>\<open>post\<close> only,
  gets a response that is neither a success payload nor a failure payload.
\<close>

theorem handler_response_shape_counterexample:
  "\<not> (success_payload (fst (dispatch
          [''get'', ''post'', ''put'', ''delete'', ''head'', ''options'', ''trace'']
          [''post'' \<mapsto> Verify_post (\<lambda>r a. Inr None) Map.empty (\<lambda>url h. False)]
          \<lparr>method = ''GET'', POST = Map.empty, host = ''testserver''\<rparr>
          \<lparr>session = None, calls = []\<rparr>)) \<or>
       failure_payload (fst (dispatch
          [''get'', ''post'', ''put'', ''delete'', ''head'', ''options'', ''trace'']
          [''post'' \<mapsto> Verify_post (\<lambda>r a. Inr None) Map.empty (\<lambda>url h. False)]
          \<lparr>method = ''GET'', POST = Map.empty, host = ''testserver''\<rparr>
          \<lparr>session = None, calls = []\<rparr>)))"
  by (auto simp: dispatch_def lower_GET http_method_not_allowed_sel
        failure_payload_def success_payload_def)

end
